theory Spec2Isabelle
  imports Complex_Main "HOL-Library.Word"
begin

section \<open>Strings, bytes and the environment\<close>

text \<open>
  A JavaScript string is a sequence of UTF-16 code units; user-supplied text (message
  bodies, file names, peer identifiers typed by the user, error messages) is a list of
  code units. Strings the component builds from digits (message ids, the session
  identity) are ASCII and use \<^typ>\<open>string\<close>. A file payload (\<open>ArrayBuffer\<close>) is a list of bytes.
\<close>

type_synonym jstring = "nat list"

type_synonym byte = "8 word"

text \<open>
  \<open>String.prototype.trim\<close> removes the ECMAScript white space and line terminators
  from both ends: TAB, LF, VT, FF, CR, SPACE, NBSP, U+1680, U+2000..U+200A, U+2028,
  U+2029, U+202F, U+205F, U+3000 and U+FEFF.
\<close>

definition is_white_space :: "nat \<Rightarrow> bool" where
  "is_white_space u =
     (u \<in> set [9, 10, 11, 12, 13, 32, 160, 5760, 8232, 8233, 8239, 8287, 12288, 65279]
      \<or> (8192 \<le> u \<and> u \<le> 8202))"

definition trim :: "jstring \<Rightarrow> jstring" where
  "trim s = rev (dropWhile is_white_space (rev (dropWhile is_white_space s)))"

text \<open>\<open>Number.prototype.toString()\<close> of a non-negative integer: its decimal digits.\<close>

definition digit_char :: "nat \<Rightarrow> char" where
  "digit_char d = char_of (48 + d)"

function dec :: "nat \<Rightarrow> string" where
  "dec n = (if n < 10 then [digit_char n] else dec (n div 10) @ [digit_char (n mod 10)])"
  by pat_completeness auto
termination
  by (relation "measure id") auto

declare dec.simps [simp del]

text \<open>
  What one handler run reads from the platform: \<open>now\<close> is the first \<open>Date.now()\<close> of
  the object literal (it goes into the id), \<open>rnd\<close> is the rendering of \<open>Math.random()\<close>
  that the call site appends to the id, and \<open>now_ts\<close> is the second \<open>Date.now()\<close> (the
  timestamp).
\<close>

record env =
  now :: nat
  rnd :: string
  now_ts :: nat

section \<open>Session identity\<close>

text \<open>
  \<open>Math.random().toString(36).substring(2, 8).toUpperCase()\<close>. The argument \<open>r36\<close> is
  the platform's radix-36 rendering of the random number, \<open>0\<close> or \<open>0.\<close> followed by
  digits out of \<open>0..9a..z\<close>. \<open>substring(2, 8)\<close> clamps both indices to the length.
\<close>

definition substring :: "nat \<Rightarrow> nat \<Rightarrow> string \<Rightarrow> string" where
  "substring i j s = take (min j (length s) - min i (length s)) (drop (min i (length s)) s)"

definition to_upper :: "char \<Rightarrow> char" where
  "to_upper c =
     (if (97::nat) \<le> of_char c \<and> of_char c \<le> (122::nat) then char_of (of_char c - (32::nat)) else c)"

definition toUpperCase :: "string \<Rightarrow> string" where
  "toUpperCase s = map to_upper s"

definition generate_id :: "string \<Rightarrow> string" where
  "generate_id r36 = toUpperCase (substring 2 8 r36)"

section \<open>Messages and frames\<close>

datatype sender = Me | Remote | System

datatype msg_type = Text | File | SystemT

datatype call_mode = Audio | Video

datatype call_state = Idle | Calling | Incoming | Active

datatype conn_status = Disconnected | Connecting | Connected

text \<open>
  The \<open>content\<close> of a message is a string in the source. The notices are template
  strings with fixed Chinese text; the model keeps which template was used and the
  values spliced into it. \<open>Body\<close> is a chat text, taken over unchanged.
\<close>

datatype content =
    Body jstring
  | ChannelOpened jstring
  | IncomingFile jstring jstring
  | FileReceived
  | FileSent
  | ChannelClosed
  | ConnectionError jstring
  | PeerFailure "jstring option"
  | IncomingCall jstring call_mode
  | CallConnected
  | RemoteHungUp
  | CallError jstring
  | CallingNotice jstring call_mode
  | MediaUnavailable jstring
  | CallRejected
  | CallEnded

record message =
  msg_id :: string
  sender :: sender
  msg_type :: msg_type
  content :: content
  timestamp :: nat
  fileName :: "jstring option"
  fileSize :: "nat option"
  fileData :: "byte list option"

text \<open>
  What arrives on the data channel is untyped (\<open>data: any\<close>); the handler looks at
  \<open>data.type\<close> only. \<open>OtherFrame\<close> stands for every value whose \<open>type\<close> is none of
  \<open>text\<close>, \<open>file-start\<close>, \<open>file\<close>.
\<close>

datatype frame =
    TextFrame jstring
  | FileStartFrame jstring nat
  | FileFrame "byte list" jstring nat
  | OtherFrame

text \<open>A \<open>File\<close> of the browser: its name and its bytes; \<open>file.size\<close> is their number.\<close>

record user_file =
  file_name :: jstring
  file_bytes :: "byte list"

definition file_size :: "user_file \<Rightarrow> nat" where
  "file_size f = length (file_bytes f)"

section \<open>Objects of the platform\<close>

text \<open>
  A \<open>DataConnection\<close> and a \<open>MediaConnection\<close> are objects of the PeerJS library,
  told apart by an object identity; \<open>conn_peer\<close> and \<open>call_peer\<close> are their \<open>peer\<close>
  property, \<open>metadata_mode\<close> is \<open>call.metadata?.mode\<close>.
\<close>

record dconn =
  conn_id :: nat
  conn_peer :: jstring

record mcall =
  call_id :: nat
  call_peer :: jstring
  metadata_mode :: "call_mode option"

text \<open>
  A \<open>MediaStreamTrack\<close> of the local device. Tracks are shared mutable objects: they are
  kept in a store, each with the stream it belongs to; \<open>live\<close> is
  \<open>readyState === 'live'\<close>, which \<open>stop()\<close> ends for good.
\<close>

datatype track_kind = AudioTrack | VideoTrack

record track =
  owner :: nat
  kind :: track_kind
  enabled :: bool
  live :: bool

datatype stream_handle = LocalStream nat | RemoteStream nat

text \<open>
  An \<open>await getUserMedia(...)\<close> in flight, with what the suspended function has
  captured: \<open>startCall\<close> its \<open>mode\<close> and the \<open>targetId\<close> of the render it was called
  in, \<open>answerCall\<close> its \<open>call\<close> and the \<open>callMode\<close> of that render.
\<close>

datatype pending = StartPending call_mode jstring | AnswerPending mcall call_mode

section \<open>The component state\<close>

text \<open>
  The React state and refs of \<open>WebrtcApp\<close> (the variant with calls), the \<open>srcObject\<close>
  of its three media elements, and the objects of the platform the handlers act on:
  the track store, the frames handed to \<open>conn.send\<close>, the connections and calls that
  carry this component's listeners, the calls closed and answered, and the
  asynchronous operations in flight. \<open>peerRef\<close> holds the id the \<open>Peer\<close> was
  created with. The fields \<open>copied\<close>, \<open>isDragging\<close> and \<open>callDuration\<close> are display
  only and left out.
\<close>

record state =
  peerId :: string
  targetId :: jstring
  connection :: "dconn option"
  status :: conn_status
  messages :: "message list"
  inputText :: jstring
  callState :: call_state
  callMode :: call_mode
  isMuted :: bool
  isCamOff :: bool
  peerRef :: "string option"
  connectionRef :: "dconn option"
  mediaCallRef :: "mcall option"
  localStreamRef :: "nat option"
  localVideo :: "stream_handle option"
  remoteVideo :: "stream_handle option"
  remoteAudio :: "stream_handle option"
  tracks :: "track list"
  sent :: "(dconn \<times> frame) list"
  dataListeners :: "nat list"
  callListeners :: "nat list"
  closedCalls :: "nat list"
  answered :: "(nat \<times> nat) list"
  pendingMedia :: "pending list"
  pendingReads :: "(dconn \<times> user_file) list"
  nextObject :: nat

text \<open>
  The state after the first render and its effect: \<open>new Peer(id, ...)\<close> with the
  generated id, every piece of state at its \<open>useState\<close> initial value.
\<close>

definition mount :: "string \<Rightarrow> state" where
  "mount r36 =
     \<lparr>peerId = [], targetId = [], connection = None, status = Disconnected, messages = [],
      inputText = [], callState = Idle, callMode = Audio, isMuted = False, isCamOff = False,
      peerRef = Some (generate_id r36), connectionRef = None, mediaCallRef = None,
      localStreamRef = None, localVideo = None, remoteVideo = None, remoteAudio = None,
      tracks = [], sent = [], dataListeners = [], callListeners = [], closedCalls = [],
      answered = [], pendingMedia = [], pendingReads = [], nextObject = 0\<rparr>"

text \<open>
  The two \<open>video\<close> elements are rendered only while the call is \<open>calling\<close> or
  \<open>active\<close> in video mode, so \<open>localVideoRef.current\<close> and \<open>remoteVideoRef.current\<close>
  are non-null exactly then; the \<open>audio\<close> element is always rendered. A handler sees
  the refs of the last render, that is of the state it starts in.
\<close>

definition video_panel :: "state \<Rightarrow> bool" where
  "video_panel s = ((callState s = Active \<or> callState s = Calling) \<and> callMode s = Video)"

text \<open>
  Rendering after a handler: when the video panel is not rendered its elements are
  unmounted, and elements mounted later start without a \<open>srcObject\<close>.
\<close>

definition render :: "state \<Rightarrow> state" where
  "render s = (if video_panel s then s else s\<lparr>localVideo := None, remoteVideo := None\<rparr>)"

section \<open>The handlers of the call variant\<close>

subsection \<open>Helpers\<close>

definition system_message :: "env \<Rightarrow> content \<Rightarrow> message" where
  "system_message e txt =
     \<lparr>msg_id = dec (now e) @ rnd e, sender = System, msg_type = SystemT, content = txt,
      timestamp = now_ts e, fileName = None, fileSize = None, fileData = None\<rparr>"

definition addSystemMessage :: "env \<Rightarrow> content \<Rightarrow> state \<Rightarrow> state" where
  "addSystemMessage e txt s = s\<lparr>messages := messages s @ [system_message e txt]\<rparr>"

definition stop_track :: "nat \<Rightarrow> track \<Rightarrow> track" where
  "stop_track stream t = (if owner t = stream then t\<lparr>live := False\<rparr> else t)"

definition stopLocalStream :: "state \<Rightarrow> state" where
  "stopLocalStream s =
     (case localStreamRef s of
        None \<Rightarrow> s
      | Some stream \<Rightarrow> s\<lparr>tracks := map (stop_track stream) (tracks s), localStreamRef := None\<rparr>)"

subsection \<open>Data connection\<close>

definition handleDataConnection :: "dconn \<Rightarrow> state \<Rightarrow> state" where
  "handleDataConnection conn s =
     s\<lparr>connectionRef := Some conn, connection := Some conn,
       dataListeners := dataListeners s @ [conn_id conn]\<rparr>"

definition conn_on_open :: "env \<Rightarrow> dconn \<Rightarrow> state \<Rightarrow> state" where
  "conn_on_open e conn s = addSystemMessage e (ChannelOpened (conn_peer conn)) (s\<lparr>status := Connected\<rparr>)"

definition remote_text :: "env \<Rightarrow> jstring \<Rightarrow> message" where
  "remote_text e c =
     \<lparr>msg_id = dec (now e) @ rnd e, sender = Remote, msg_type = Text, content = Body c,
      timestamp = now_ts e, fileName = None, fileSize = None, fileData = None\<rparr>"

definition remote_file :: "env \<Rightarrow> byte list \<Rightarrow> jstring \<Rightarrow> nat \<Rightarrow> message" where
  "remote_file e bytes name sz =
     \<lparr>msg_id = dec (now e) @ rnd e, sender = Remote, msg_type = File, content = FileReceived,
      timestamp = now_ts e, fileName = Some name, fileSize = Some sz, fileData = Some bytes\<rparr>"

definition conn_on_data :: "env \<Rightarrow> dconn \<Rightarrow> frame \<Rightarrow> state \<Rightarrow> state" where
  "conn_on_data e conn data s =
     (case data of
        TextFrame c \<Rightarrow> s\<lparr>messages := messages s @ [remote_text e c]\<rparr>
      | FileStartFrame name sz \<Rightarrow> addSystemMessage e (IncomingFile (conn_peer conn) name) s
      | FileFrame bytes name sz \<Rightarrow> s\<lparr>messages := messages s @ [remote_file e bytes name sz]\<rparr>
      | OtherFrame \<Rightarrow> s)"

definition conn_on_close :: "env \<Rightarrow> state \<Rightarrow> state" where
  "conn_on_close e s =
     addSystemMessage e ChannelClosed (s\<lparr>status := Disconnected, connection := None, connectionRef := None\<rparr>)"

definition conn_on_error :: "env \<Rightarrow> jstring \<Rightarrow> state \<Rightarrow> state" where
  "conn_on_error e msg s =
     addSystemMessage e (ConnectionError msg)
       (s\<lparr>status := Disconnected, connection := None, connectionRef := None\<rparr>)"

text \<open>\<open>peerRef.current.connect(...)\<close> returns a new connection object.\<close>

definition connectToPeer :: "state \<Rightarrow> state" where
  "connectToPeer s =
     (if peerRef s = None \<or> trim (targetId s) = [] then s
      else let conn = \<lparr>conn_id = nextObject s, conn_peer = trim (targetId s)\<rparr>
           in handleDataConnection conn (s\<lparr>status := Connecting, nextObject := Suc (nextObject s)\<rparr>))"

subsection \<open>Media call\<close>

text \<open>\<open>attachStream(ref, stream)\<close>: nothing happens when \<open>ref.current\<close> is null.\<close>

definition attachStream :: "bool \<Rightarrow> stream_handle \<Rightarrow> stream_handle option \<Rightarrow> stream_handle option" where
  "attachStream mounted stream src = (if \<not> mounted then src else Some stream)"

definition call_mode_of :: "mcall \<Rightarrow> call_mode" where
  "call_mode_of call = (case metadata_mode call of None \<Rightarrow> Audio | Some m \<Rightarrow> m)"

text \<open>
  \<open>setupMediaCall\<close> registers the \<open>stream\<close>, \<open>close\<close> and \<open>error\<close> listeners on the
  call; the three listeners follow.
\<close>

definition setupMediaCall :: "mcall \<Rightarrow> nat \<Rightarrow> state \<Rightarrow> state" where
  "setupMediaCall call localStream s = s\<lparr>callListeners := callListeners s @ [call_id call]\<rparr>"

definition call_on_stream :: "env \<Rightarrow> mcall \<Rightarrow> nat \<Rightarrow> state \<Rightarrow> state" where
  "call_on_stream e call remoteStream s =
     (let s1 = (if call_mode_of call = Video
                then s\<lparr>remoteVideo := attachStream (video_panel s) (RemoteStream remoteStream) (remoteVideo s)\<rparr>
                else s\<lparr>remoteAudio := attachStream True (RemoteStream remoteStream) (remoteAudio s)\<rparr>)
      in addSystemMessage e CallConnected (s1\<lparr>callState := Active\<rparr>))"

definition handleCallEnded :: "env \<Rightarrow> content \<Rightarrow> state \<Rightarrow> state" where
  "handleCallEnded e reason s =
     (let s1 = stopLocalStream s;
          s2 = (if video_panel s then s1\<lparr>localVideo := None, remoteVideo := None\<rparr> else s1)
      in addSystemMessage e reason
           (s2\<lparr>remoteAudio := None, mediaCallRef := None, callState := Idle,
               isMuted := False, isCamOff := False\<rparr>))"

definition call_on_close :: "env \<Rightarrow> state \<Rightarrow> state" where
  "call_on_close e s = handleCallEnded e RemoteHungUp s"

definition call_on_error :: "env \<Rightarrow> jstring \<Rightarrow> state \<Rightarrow> state" where
  "call_on_error e msg s = handleCallEnded e (CallError msg) s"

text \<open>
  \<open>getUserMedia({audio: true, video})\<close> when it resolves: a new stream with a live,
  enabled microphone track, and a camera track when video was asked for.
\<close>

definition getUserMedia :: "bool \<Rightarrow> state \<Rightarrow> nat \<times> state" where
  "getUserMedia video s =
     (let stream = nextObject s;
          mic = \<lparr>owner = stream, kind = AudioTrack, enabled = True, live = True\<rparr>;
          cam = \<lparr>owner = stream, kind = VideoTrack, enabled = True, live = True\<rparr>
      in (stream, s\<lparr>tracks := tracks s @ (if video then [mic, cam] else [mic]),
                     nextObject := Suc stream\<rparr>))"

text \<open>\<open>startCall\<close> up to its \<open>await\<close>, then the rest of its \<open>try\<close> block, then its \<open>catch\<close>.\<close>

definition startCall :: "call_mode \<Rightarrow> state \<Rightarrow> state" where
  "startCall mode s =
     (if peerRef s = None \<or> trim (targetId s) = [] then s
      else s\<lparr>callMode := mode, callState := Calling,
             pendingMedia := pendingMedia s @ [StartPending mode (targetId s)]\<rparr>)"

definition startCall_resumed :: "env \<Rightarrow> call_mode \<Rightarrow> jstring \<Rightarrow> nat \<Rightarrow> state \<Rightarrow> state" where
  "startCall_resumed e mode tid stream s =
     (let s1 = s\<lparr>localStreamRef := Some stream\<rparr>;
          s2 = (if mode = Video
                then s1\<lparr>localVideo := attachStream (video_panel s) (LocalStream stream) (localVideo s1)\<rparr>
                else s1);
          call = \<lparr>call_id = nextObject s2, call_peer = trim tid, metadata_mode = Some mode\<rparr>;
          s3 = s2\<lparr>nextObject := Suc (nextObject s2), mediaCallRef := Some call\<rparr>
      in addSystemMessage e (CallingNotice (trim tid) mode) (setupMediaCall call stream s3))"

definition media_failed :: "env \<Rightarrow> jstring \<Rightarrow> state \<Rightarrow> state" where
  "media_failed e msg s = addSystemMessage e (MediaUnavailable msg) (s\<lparr>callState := Idle\<rparr>)"

text \<open>\<open>answerCall\<close>, split at its \<open>await\<close> in the same way.\<close>

definition answerCall :: "state \<Rightarrow> state" where
  "answerCall s =
     (case mediaCallRef s of
        None \<Rightarrow> s
      | Some call \<Rightarrow> s\<lparr>pendingMedia := pendingMedia s @ [AnswerPending call (callMode s)]\<rparr>)"

definition answerCall_resumed :: "mcall \<Rightarrow> call_mode \<Rightarrow> nat \<Rightarrow> state \<Rightarrow> state" where
  "answerCall_resumed call mode stream s =
     (let s1 = s\<lparr>localStreamRef := Some stream\<rparr>;
          s2 = (if mode = Video
                then s1\<lparr>localVideo := attachStream (video_panel s) (LocalStream stream) (localVideo s1)\<rparr>
                else s1);
          s3 = s2\<lparr>answered := answered s2 @ [(call_id call, stream)]\<rparr>
      in setupMediaCall call stream s3)"

definition close_current_call :: "state \<Rightarrow> state" where
  "close_current_call s =
     (case mediaCallRef s of
        None \<Rightarrow> s
      | Some call \<Rightarrow> s\<lparr>closedCalls := closedCalls s @ [call_id call]\<rparr>)"

definition rejectCall :: "env \<Rightarrow> state \<Rightarrow> state" where
  "rejectCall e s =
     addSystemMessage e CallRejected ((close_current_call s)\<lparr>mediaCallRef := None, callState := Idle\<rparr>)"

definition hangUp :: "env \<Rightarrow> state \<Rightarrow> state" where
  "hangUp e s = handleCallEnded e CallEnded (close_current_call s)"

definition set_enabled :: "nat \<Rightarrow> track_kind \<Rightarrow> bool \<Rightarrow> track \<Rightarrow> track" where
  "set_enabled stream k b t = (if owner t = stream \<and> kind t = k then t\<lparr>enabled := b\<rparr> else t)"

definition toggleMute :: "state \<Rightarrow> state" where
  "toggleMute s =
     (case localStreamRef s of
        None \<Rightarrow> s
      | Some stream \<Rightarrow>
          s\<lparr>tracks := map (set_enabled stream AudioTrack (isMuted s)) (tracks s),
            isMuted := \<not> isMuted s\<rparr>)"

definition toggleCamera :: "state \<Rightarrow> state" where
  "toggleCamera s =
     (case localStreamRef s of
        None \<Rightarrow> s
      | Some stream \<Rightarrow>
          s\<lparr>tracks := map (set_enabled stream VideoTrack (isCamOff s)) (tracks s),
            isCamOff := \<not> isCamOff s\<rparr>)"

subsection \<open>Text and file send\<close>

definition own_text :: "env \<Rightarrow> jstring \<Rightarrow> message" where
  "own_text e c =
     \<lparr>msg_id = dec (now e) @ rnd e, sender = Me, msg_type = Text, content = Body c,
      timestamp = now_ts e, fileName = None, fileSize = None, fileData = None\<rparr>"

definition own_file :: "env \<Rightarrow> user_file \<Rightarrow> message" where
  "own_file e f =
     \<lparr>msg_id = dec (now e) @ rnd e, sender = Me, msg_type = File, content = FileSent,
      timestamp = now_ts e, fileName = Some (file_name f), fileSize = Some (file_size f),
      fileData = Some (file_bytes f)\<rparr>"

definition sendMessage :: "env \<Rightarrow> state \<Rightarrow> state" where
  "sendMessage e s =
     (case connectionRef s of
        None \<Rightarrow> s
      | Some conn \<Rightarrow>
          if trim (inputText s) = [] then s
          else s\<lparr>sent := sent s @ [(conn, TextFrame (inputText s))],
                 messages := messages s @ [own_text e (inputText s)],
                 inputText := []\<rparr>)"

text \<open>
  \<open>sendFile\<close> up to \<open>reader.readAsArrayBuffer(file)\<close>, and the \<open>onload\<close> callback, which
  has captured \<open>conn\<close> and \<open>file\<close>.
\<close>

definition sendFile :: "user_file \<Rightarrow> state \<Rightarrow> state" where
  "sendFile f s =
     (case connectionRef s of
        None \<Rightarrow> s
      | Some conn \<Rightarrow>
          s\<lparr>sent := sent s @ [(conn, FileStartFrame (file_name f) (file_size f))],
            pendingReads := pendingReads s @ [(conn, f)]\<rparr>)"

definition reader_onload :: "env \<Rightarrow> dconn \<Rightarrow> user_file \<Rightarrow> state \<Rightarrow> state" where
  "reader_onload e conn f s =
     s\<lparr>sent := sent s @ [(conn, FileFrame (file_bytes f) (file_name f) (file_size f))],
       messages := messages s @ [own_file e f]\<rparr>"

definition handleDrop :: "user_file list \<Rightarrow> state \<Rightarrow> state" where
  "handleDrop files s = (if status s \<noteq> Connected then s else fold sendFile files s)"

subsection \<open>Listeners on the peer\<close>

definition peer_on_connection :: "jstring \<Rightarrow> state \<Rightarrow> state" where
  "peer_on_connection p s =
     handleDataConnection \<lparr>conn_id = nextObject s, conn_peer = p\<rparr> (s\<lparr>nextObject := Suc (nextObject s)\<rparr>)"

definition peer_on_call :: "env \<Rightarrow> jstring \<Rightarrow> call_mode option \<Rightarrow> state \<Rightarrow> state" where
  "peer_on_call e p md s =
     (let call = \<lparr>call_id = nextObject s, call_peer = p, metadata_mode = md\<rparr>;
          mode = call_mode_of call
      in addSystemMessage e (IncomingCall p mode)
           (s\<lparr>nextObject := Suc (nextObject s), mediaCallRef := Some call,
              callMode := mode, callState := Incoming\<rparr>))"

text \<open>
  \<open>peer.on('error')\<close>: the id of this entry is \<open>Date.now().toString()\<close> alone. The
  argument is \<open>None\<close> for \<open>err.type === 'peer-unavailable'\<close>, else \<open>err.message\<close>.
\<close>

definition peer_error_message :: "env \<Rightarrow> jstring option \<Rightarrow> message" where
  "peer_error_message e err =
     \<lparr>msg_id = dec (now e), sender = System, msg_type = SystemT, content = PeerFailure err,
      timestamp = now_ts e, fileName = None, fileSize = None, fileData = None\<rparr>"

definition peer_on_error :: "env \<Rightarrow> jstring option \<Rightarrow> state \<Rightarrow> state" where
  "peer_on_error e err s =
     s\<lparr>status := Disconnected, messages := messages s @ [peer_error_message e err]\<rparr>"

section \<open>Events\<close>

text \<open>
  Everything that can make the component run code: events of the PeerJS objects and of
  the browser, and the user's actions on the controls. A listener runs only on an
  object it was registered on. A control acts only while it is rendered and enabled:
  the conditions are those of the JSX. The hidden file input is never disabled, so its
  change event (\<open>ChooseFile\<close>) runs \<open>handleFileUpload\<close> whatever the status; the target
  id typed by the user is stored upper-cased.

  \<open>CallStream\<close>, \<open>CallClose\<close> and \<open>CallError\<close> are the events of a call that
  \<open>setupMediaCall\<close> was given once, and run its listener once. A call answered twice
  carries every listener twice, and an event of it would run the listener twice; no
  statement below is about an event of such a call.
\<close>

datatype event =
    PeerOpen string
  | PeerConnection jstring
  | PeerCall jstring "call_mode option" env
  | PeerError "jstring option" env
  | ConnOpen dconn env
  | ConnData dconn frame env
  | ConnClose dconn env
  | ConnError dconn jstring env
  | CallStream mcall nat env
  | CallClose mcall env
  | CallError mcall jstring env
  | MediaGranted nat env
  | MediaDenied nat jstring env
  | FileLoaded nat env
  | ChangeTargetId jstring
  | ChangeInputText jstring
  | ClickConnect
  | SubmitMessage env
  | ChooseFile user_file
  | DropFiles "user_file list"
  | ClickStartCall call_mode
  | ClickAnswer
  | ClickReject env
  | ClickHangUp env
  | ClickToggleMute
  | ClickToggleCamera

definition remove_nth :: "nat \<Rightarrow> 'a list \<Rightarrow> 'a list" where
  "remove_nth k xs = take k xs @ drop (Suc k) xs"

text \<open>The promise of the \<open>k\<close>-th pending \<open>getUserMedia\<close> resolves, or is rejected.\<close>

definition media_granted :: "nat \<Rightarrow> env \<Rightarrow> state \<Rightarrow> state" where
  "media_granted k e s =
     (if k < length (pendingMedia s) then
        (case pendingMedia s ! k of
           StartPending mode tid \<Rightarrow>
             (case getUserMedia (mode = Video) (s\<lparr>pendingMedia := remove_nth k (pendingMedia s)\<rparr>) of
                (stream, s') \<Rightarrow> startCall_resumed e mode tid stream s')
         | AnswerPending call mode \<Rightarrow>
             (case getUserMedia (mode = Video) (s\<lparr>pendingMedia := remove_nth k (pendingMedia s)\<rparr>) of
                (stream, s') \<Rightarrow> answerCall_resumed call mode stream s'))
      else s)"

definition media_denied :: "nat \<Rightarrow> jstring \<Rightarrow> env \<Rightarrow> state \<Rightarrow> state" where
  "media_denied k msg e s =
     (if k < length (pendingMedia s)
      then media_failed e msg (s\<lparr>pendingMedia := remove_nth k (pendingMedia s)\<rparr>)
      else s)"

definition file_loaded :: "nat \<Rightarrow> env \<Rightarrow> state \<Rightarrow> state" where
  "file_loaded k e s =
     (if k < length (pendingReads s)
      then (case pendingReads s ! k of
              (conn, f) \<Rightarrow> reader_onload e conn f (s\<lparr>pendingReads := remove_nth k (pendingReads s)\<rparr>))
      else s)"

text \<open>
  \<open>e.target.value.toUpperCase()\<close> of the target id input, on code units: the ASCII
  letters, which are the letters a peer id is made of. Code units outside ASCII are left
  as they are; their Unicode case mapping is not modelled.
\<close>

definition upper_unit :: "nat \<Rightarrow> nat" where
  "upper_unit u = (if 97 \<le> u \<and> u \<le> 122 then u - 32 else u)"

definition upper_units :: "jstring \<Rightarrow> jstring" where
  "upper_units v = map upper_unit v"

text \<open>The \<open>disabled\<close> attribute of the connect button.\<close>

definition connect_disabled :: "state \<Rightarrow> bool" where
  "connect_disabled s = (targetId s = [] \<or> status s = Connected \<or> status s = Connecting)"

fun dispatch :: "state \<Rightarrow> event \<Rightarrow> state" where
  "dispatch s (PeerOpen i) = s\<lparr>peerId := i\<rparr>"
| "dispatch s (PeerConnection p) = peer_on_connection p s"
| "dispatch s (PeerCall p md e) = peer_on_call e p md s"
| "dispatch s (PeerError err e) = peer_on_error e err s"
| "dispatch s (ConnOpen c e) = (if conn_id c \<in> set (dataListeners s) then conn_on_open e c s else s)"
| "dispatch s (ConnData c d e) = (if conn_id c \<in> set (dataListeners s) then conn_on_data e c d s else s)"
| "dispatch s (ConnClose c e) = (if conn_id c \<in> set (dataListeners s) then conn_on_close e s else s)"
| "dispatch s (ConnError c msg e) = (if conn_id c \<in> set (dataListeners s) then conn_on_error e msg s else s)"
| "dispatch s (CallStream c r e) = (if call_id c \<in> set (callListeners s) then call_on_stream e c r s else s)"
| "dispatch s (CallClose c e) = (if call_id c \<in> set (callListeners s) then call_on_close e s else s)"
| "dispatch s (CallError c msg e) = (if call_id c \<in> set (callListeners s) then call_on_error e msg s else s)"
| "dispatch s (MediaGranted k e) = media_granted k e s"
| "dispatch s (MediaDenied k msg e) = media_denied k msg e s"
| "dispatch s (FileLoaded k e) = file_loaded k e s"
| "dispatch s (ChangeTargetId v) =
     (if status s = Connected then s else s\<lparr>targetId := upper_units v\<rparr>)"
| "dispatch s (ChangeInputText v) = (if status s = Connected then s\<lparr>inputText := v\<rparr> else s)"
| "dispatch s ClickConnect = (if connect_disabled s then s else connectToPeer s)"
| "dispatch s (SubmitMessage e) = (if status s = Connected then sendMessage e s else s)"
| "dispatch s (ChooseFile f) = sendFile f s"
| "dispatch s (DropFiles fs) = handleDrop fs s"
| "dispatch s (ClickStartCall mode) =
     (if status s = Connected \<and> callState s = Idle then startCall mode s else s)"
| "dispatch s ClickAnswer = (if callState s = Incoming then answerCall s else s)"
| "dispatch s (ClickReject e) = (if callState s = Incoming then rejectCall e s else s)"
| "dispatch s (ClickHangUp e) =
     (if callState s = Calling \<or> callState s = Active then hangUp e s else s)"
| "dispatch s ClickToggleMute = (if callState s = Active then toggleMute s else s)"
| "dispatch s ClickToggleCamera =
     (if callState s = Active \<and> callMode s = Video then toggleCamera s else s)"

definition step :: "state \<Rightarrow> event \<Rightarrow> state" where
  "step s ev = render (dispatch s ev)"

definition run :: "state \<Rightarrow> event list \<Rightarrow> state" where
  "run s evs = foldl step s evs"

text \<open>
  Delivery over the reliable, ordered channel: the receiver's \<open>data\<close> listener runs once
  per frame, in the order the frames were sent.
\<close>

definition deliver :: "dconn \<Rightarrow> (frame \<times> env) list \<Rightarrow> state \<Rightarrow> state" where
  "deliver conn fs r = foldl (\<lambda>s (d, e). step s (ConnData conn d e)) r fs"

section \<open>The base variant\<close>

text \<open>
  The first \<open>WebrtcApp\<close> of the file has no calls and no \<open>connectionRef\<close>: its
  handlers read the \<open>connection\<close> state. Its log entries take \<open>Date.now().toString()\<close>
  as id, the file entries with
  \<open>Math.random().toString(36).substring(2, 9)\<close> appended (\<open>rnd\<close> is then the radix-36
  rendering).
\<close>

record base_state =
  b_targetId :: jstring
  b_connection :: "dconn option"
  b_status :: conn_status
  b_messages :: "message list"
  b_inputText :: jstring
  b_peerRef :: "string option"
  b_sent :: "(dconn \<times> frame) list"
  b_listeners :: "nat list"
  b_pendingReads :: "(dconn \<times> user_file) list"
  b_nextObject :: nat

definition base_mount :: "string \<Rightarrow> base_state" where
  "base_mount r36 =
     \<lparr>b_targetId = [], b_connection = None, b_status = Disconnected, b_messages = [],
      b_inputText = [], b_peerRef = Some (generate_id r36), b_sent = [], b_listeners = [],
      b_pendingReads = [], b_nextObject = 0\<rparr>"

definition base_entry :: "env \<Rightarrow> sender \<Rightarrow> msg_type \<Rightarrow> content \<Rightarrow> message" where
  "base_entry e who ty txt =
     \<lparr>msg_id = dec (now e), sender = who, msg_type = ty, content = txt,
      timestamp = now_ts e, fileName = None, fileSize = None, fileData = None\<rparr>"

definition base_file_entry :: "env \<Rightarrow> sender \<Rightarrow> content \<Rightarrow> byte list \<Rightarrow> jstring \<Rightarrow> nat \<Rightarrow> message" where
  "base_file_entry e who txt bytes name sz =
     \<lparr>msg_id = dec (now e) @ substring 2 9 (rnd e), sender = who, msg_type = File, content = txt,
      timestamp = now_ts e, fileName = Some name, fileSize = Some sz, fileData = Some bytes\<rparr>"

definition base_addSystemMessage :: "env \<Rightarrow> content \<Rightarrow> base_state \<Rightarrow> base_state" where
  "base_addSystemMessage e txt s = s\<lparr>b_messages := b_messages s @ [base_entry e System SystemT txt]\<rparr>"

definition handleConnection :: "dconn \<Rightarrow> base_state \<Rightarrow> base_state" where
  "handleConnection conn s =
     s\<lparr>b_connection := Some conn, b_listeners := b_listeners s @ [conn_id conn]\<rparr>"

definition base_on_open :: "env \<Rightarrow> dconn \<Rightarrow> base_state \<Rightarrow> base_state" where
  "base_on_open e conn s =
     base_addSystemMessage e (ChannelOpened (conn_peer conn)) (s\<lparr>b_status := Connected\<rparr>)"

definition base_on_data :: "env \<Rightarrow> dconn \<Rightarrow> frame \<Rightarrow> base_state \<Rightarrow> base_state" where
  "base_on_data e conn data s =
     (case data of
        TextFrame c \<Rightarrow> s\<lparr>b_messages := b_messages s @ [base_entry e Remote Text (Body c)]\<rparr>
      | FileStartFrame name sz \<Rightarrow> base_addSystemMessage e (IncomingFile (conn_peer conn) name) s
      | FileFrame bytes name sz \<Rightarrow>
          s\<lparr>b_messages := b_messages s @ [base_file_entry e Remote FileReceived bytes name sz]\<rparr>
      | OtherFrame \<Rightarrow> s)"

definition base_on_close :: "env \<Rightarrow> base_state \<Rightarrow> base_state" where
  "base_on_close e s =
     base_addSystemMessage e ChannelClosed (s\<lparr>b_status := Disconnected, b_connection := None\<rparr>)"

definition base_on_error :: "env \<Rightarrow> jstring \<Rightarrow> base_state \<Rightarrow> base_state" where
  "base_on_error e msg s =
     base_addSystemMessage e (ConnectionError msg) (s\<lparr>b_status := Disconnected, b_connection := None\<rparr>)"

definition base_peer_on_error :: "env \<Rightarrow> jstring option \<Rightarrow> base_state \<Rightarrow> base_state" where
  "base_peer_on_error e err s =
     s\<lparr>b_status := Disconnected,
       b_messages := b_messages s @ [base_entry e System SystemT (PeerFailure err)]\<rparr>"

definition base_connectToPeer :: "base_state \<Rightarrow> base_state" where
  "base_connectToPeer s =
     (if b_peerRef s = None \<or> trim (b_targetId s) = [] then s
      else let conn = \<lparr>conn_id = b_nextObject s, conn_peer = trim (b_targetId s)\<rparr>
           in handleConnection conn (s\<lparr>b_status := Connecting, b_nextObject := Suc (b_nextObject s)\<rparr>))"

definition base_sendMessage :: "env \<Rightarrow> base_state \<Rightarrow> base_state" where
  "base_sendMessage e s =
     (case b_connection s of
        None \<Rightarrow> s
      | Some conn \<Rightarrow>
          if trim (b_inputText s) = [] then s
          else s\<lparr>b_sent := b_sent s @ [(conn, TextFrame (b_inputText s))],
                 b_messages := b_messages s @ [base_entry e Me Text (Body (b_inputText s))],
                 b_inputText := []\<rparr>)"

definition base_sendFile :: "user_file \<Rightarrow> base_state \<Rightarrow> base_state" where
  "base_sendFile f s =
     (case b_connection s of
        None \<Rightarrow> s
      | Some conn \<Rightarrow>
          s\<lparr>b_sent := b_sent s @ [(conn, FileStartFrame (file_name f) (file_size f))],
            b_pendingReads := b_pendingReads s @ [(conn, f)]\<rparr>)"

definition base_reader_onload :: "env \<Rightarrow> dconn \<Rightarrow> user_file \<Rightarrow> base_state \<Rightarrow> base_state" where
  "base_reader_onload e conn f s =
     s\<lparr>b_sent := b_sent s @ [(conn, FileFrame (file_bytes f) (file_name f) (file_size f))],
       b_messages := b_messages s @
         [base_file_entry e Me FileSent (file_bytes f) (file_name f) (file_size f)]\<rparr>"

definition base_connect_disabled :: "base_state \<Rightarrow> bool" where
  "base_connect_disabled s = (b_targetId s = [] \<or> b_status s = Connected \<or> b_status s = Connecting)"

datatype base_event =
    BPeerConnection jstring
  | BPeerError "jstring option" env
  | BConnOpen dconn env
  | BConnData dconn frame env
  | BConnClose dconn env
  | BConnError dconn jstring env
  | BFileLoaded nat env
  | BChangeTargetId jstring
  | BChangeInputText jstring
  | BClickConnect
  | BSubmitMessage env
  | BChooseFile user_file

fun base_step :: "base_state \<Rightarrow> base_event \<Rightarrow> base_state" where
  "base_step s (BPeerConnection p) =
     handleConnection \<lparr>conn_id = b_nextObject s, conn_peer = p\<rparr> (s\<lparr>b_nextObject := Suc (b_nextObject s)\<rparr>)"
| "base_step s (BPeerError err e) = base_peer_on_error e err s"
| "base_step s (BConnOpen c e) = (if conn_id c \<in> set (b_listeners s) then base_on_open e c s else s)"
| "base_step s (BConnData c d e) = (if conn_id c \<in> set (b_listeners s) then base_on_data e c d s else s)"
| "base_step s (BConnClose c e) = (if conn_id c \<in> set (b_listeners s) then base_on_close e s else s)"
| "base_step s (BConnError c msg e) = (if conn_id c \<in> set (b_listeners s) then base_on_error e msg s else s)"
| "base_step s (BFileLoaded k e) =
     (if k < length (b_pendingReads s)
      then (case b_pendingReads s ! k of
              (conn, f) \<Rightarrow> base_reader_onload e conn f (s\<lparr>b_pendingReads := remove_nth k (b_pendingReads s)\<rparr>))
      else s)"
| "base_step s (BChangeTargetId v) =
     (if b_status s = Connected then s else s\<lparr>b_targetId := upper_units v\<rparr>)"
| "base_step s (BChangeInputText v) = (if b_status s = Connected then s\<lparr>b_inputText := v\<rparr> else s)"
| "base_step s BClickConnect = (if base_connect_disabled s then s else base_connectToPeer s)"
| "base_step s (BSubmitMessage e) = (if b_status s = Connected then base_sendMessage e s else s)"
| "base_step s (BChooseFile f) = base_sendFile f s"

definition base_run :: "base_state \<Rightarrow> base_event list \<Rightarrow> base_state" where
  "base_run s evs = foldl base_step s evs"

section \<open>Notions the properties are stated with\<close>

text \<open>The log entries one received frame adds, as \<open>conn_on_data\<close> builds them.\<close>

definition frame_entries :: "dconn \<Rightarrow> frame \<times> env \<Rightarrow> message list" where
  "frame_entries conn fe =
     (case fe of
        (TextFrame c, e) \<Rightarrow> [remote_text e c]
      | (FileStartFrame name sz, e) \<Rightarrow> [system_message e (IncomingFile (conn_peer conn) name)]
      | (FileFrame bytes name sz, e) \<Rightarrow> [remote_file e bytes name sz]
      | (OtherFrame, e) \<Rightarrow> [])"

text \<open>\<open>stream.getAudioTracks()\<close> over the track store.\<close>

definition getAudioTracks :: "nat \<Rightarrow> track list \<Rightarrow> track list" where
  "getAudioTracks stream ts = filter (\<lambda>t. owner t = stream \<and> kind t = AudioTrack) ts"

text \<open>
  The number that the digits after the point of a radix-36 rendering denote; a
  rendering \<open>0.d\<^sub>1d\<^sub>2...\<close> of \<open>Number.prototype.toString(36)\<close> stands for it.
\<close>

definition digit36 :: "char \<Rightarrow> nat" where
  "digit36 c =
     (if (48::nat) \<le> of_char c \<and> of_char c \<le> (57::nat) then of_char c - 48 else of_char c - 87)"

fun radix36_fraction :: "string \<Rightarrow> rat" where
  "radix36_fraction [] = 0"
| "radix36_fraction (c # cs) = (of_nat (digit36 c) + radix36_fraction cs) / 36"

text \<open>The characters of a radix-36 rendering after the point, and those of an upper-case
  alphanumeric identity.\<close>

definition radix36_digit :: "char \<Rightarrow> bool" where
  "radix36_digit c =
     (((48::nat) \<le> of_char c \<and> of_char c \<le> (57::nat)) \<or>
      ((97::nat) \<le> of_char c \<and> of_char c \<le> (122::nat)))"

definition upper_alnum :: "char \<Rightarrow> bool" where
  "upper_alnum c =
     (((48::nat) \<le> of_char c \<and> of_char c \<le> (57::nat)) \<or>
      ((65::nat) \<le> of_char c \<and> of_char c \<le> (90::nat)))"

section \<open>Two endpoints used as concrete inputs\<close>

text \<open>
  Endpoint A draws the id \<open>4FZYO8\<close>, endpoint B the id \<open>AB12CD\<close>. A types B's id and
  connects; B accepts. \<open>alice\<close> and \<open>bob\<close> are their states once the channel is open,
  A having typed \<open>hi\<close>; \<open>in_call\<close> is A after answering an audio call of B that has
  connected.
\<close>

definition env_at :: "nat \<Rightarrow> string \<Rightarrow> env" where
  "env_at t r = \<lparr>now = t, rnd = r, now_ts = t\<rparr>"

definition r36_a :: string where
  "r36_a = ''0.4fzyo82mvyr''"

definition r36_b :: string where
  "r36_b = ''0.ab12cdw9k3x''"

definition id_a :: jstring where
  "id_a = [52, 70, 90, 89, 79, 56]"

definition id_b :: jstring where
  "id_b = [65, 66, 49, 50, 67, 68]"

definition id_c :: jstring where
  "id_c = [90, 90, 57, 57, 57, 57]"

definition conn0 :: "jstring \<Rightarrow> dconn" where
  "conn0 p = \<lparr>conn_id = 0, conn_peer = p\<rparr>"

definition call0 :: "jstring \<Rightarrow> call_mode \<Rightarrow> mcall" where
  "call0 p m = \<lparr>call_id = 0, call_peer = p, metadata_mode = Some m\<rparr>"

definition alice :: state where
  "alice = run (mount r36_a)
     [ChangeTargetId id_b, ClickConnect, ConnOpen (conn0 id_b) (env_at 1700000000000 ''0.25''),
      ChangeInputText [104, 105]]"

definition bob :: state where
  "bob = run (mount r36_b)
     [PeerConnection id_a, ConnOpen (conn0 id_a) (env_at 1700000000020 ''0.75'')]"

definition base_alice :: base_state where
  "base_alice = base_run (base_mount r36_a)
     [BChangeTargetId id_b, BClickConnect, BConnOpen (conn0 id_b) (env_at 1700000000000 ''0.25'')]"

definition in_call :: state where
  "in_call = run (mount r36_a)
     [PeerCall id_b (Some Audio) (env_at 1700000000000 ''0.25''),
      ClickAnswer,
      MediaGranted 0 (env_at 1700000003000 ''0.5''),
      CallStream (call0 id_b Audio) 7 (env_at 1700000004000 ''0.75'')]"

definition sample_file :: user_file where
  "sample_file = \<lparr>file_name = [97, 46, 116, 120, 116], file_bytes = [104, 105, 10]\<rparr>"

text \<open>
  A third endpoint C connects to A while B is connected, B's connection closes and C's
  opens: \<open>overtaken\<close> is A's state then.
\<close>

definition conn1 :: "jstring \<Rightarrow> dconn" where
  "conn1 p = \<lparr>conn_id = 1, conn_peer = p\<rparr>"

definition overtaken :: state where
  "overtaken = run (mount r36_a)
     [PeerConnection id_b, ConnOpen (conn0 id_b) (env_at 1700000000000 ''0.25''),
      PeerConnection id_c,
      ConnClose (conn0 id_b) (env_at 1700000020000 ''0.5''),
      ConnOpen (conn1 id_c) (env_at 1700000020500 ''0.75'')]"

section \<open>Auxiliary facts\<close>

lemmas handler_defs =
  peer_on_call_def peer_on_connection_def peer_on_error_def peer_error_message_def
  call_mode_of_def addSystemMessage_def system_message_def
  answerCall_def answerCall_resumed_def startCall_def startCall_resumed_def media_failed_def
  media_granted_def media_denied_def getUserMedia_def remove_nth_def setupMediaCall_def
  attachStream_def call_on_stream_def call_on_close_def call_on_error_def handleCallEnded_def
  stopLocalStream_def stop_track_def close_current_call_def hangUp_def rejectCall_def
  toggleMute_def toggleCamera_def set_enabled_def
  handleDataConnection_def conn_on_open_def conn_on_data_def conn_on_close_def conn_on_error_def
  connectToPeer_def connect_disabled_def sendMessage_def sendFile_def reader_onload_def
  file_loaded_def handleDrop_def own_text_def own_file_def remote_text_def remote_file_def

lemmas base_defs =
  base_run_def base_mount_def handleConnection_def base_on_open_def base_on_data_def
  base_on_close_def base_on_error_def base_peer_on_error_def
  base_addSystemMessage_def base_entry_def base_file_entry_def base_connectToPeer_def
  base_connect_disabled_def base_sendMessage_def base_sendFile_def base_reader_onload_def

lemmas example_defs =
  run_def step_def render_def video_panel_def mount_def env_at_def r36_a_def r36_b_def
  id_a_def id_b_def id_c_def conn0_def conn1_def call0_def overtaken_def alice_def bob_def base_alice_def in_call_def
  sample_file_def file_size_def trim_def is_white_space_def upper_units_def upper_unit_def
  Let_def

lemma messages_render: "messages (render s) = messages s"
  by (simp add: render_def)

lemma dataListeners_render: "dataListeners (render s) = dataListeners s"
  by (simp add: render_def)

lemma conn_on_data_messages:
  "messages (conn_on_data e conn d s) = messages s @ frame_entries conn (d, e)"
  by (cases d) (simp_all add: conn_on_data_def frame_entries_def addSystemMessage_def)

lemma conn_on_data_listeners: "dataListeners (conn_on_data e conn d s) = dataListeners s"
  by (cases d) (simp_all add: conn_on_data_def addSystemMessage_def)

lemma step_data:
  assumes "conn_id conn \<in> set (dataListeners r)"
  shows "messages (step r (ConnData conn d e)) = messages r @ frame_entries conn (d, e)"
    and "dataListeners (step r (ConnData conn d e)) = dataListeners r"
  using assms
  by (simp_all add: step_def messages_render dataListeners_render conn_on_data_messages
      conn_on_data_listeners)

lemma deliver_messages:
  "conn_id conn \<in> set (dataListeners r) \<Longrightarrow>
   messages (deliver conn fs r) = messages r @ concat (map (frame_entries conn) fs) \<and>
   dataListeners (deliver conn fs r) = dataListeners r"
proof (induction fs arbitrary: r)
  case Nil
  then show ?case by (simp add: deliver_def)
next
  case (Cons fe fs)
  obtain d e where fe: "fe = (d, e)" by (cases fe)
  let ?r1 = "step r (ConnData conn d e)"
  have l: "conn_id conn \<in> set (dataListeners ?r1)"
    using Cons.prems by (simp add: step_data)
  have "deliver conn (fe # fs) r = deliver conn fs ?r1"
    by (simp add: deliver_def fe)
  then show ?case
    using Cons.IH [OF l] Cons.prems by (simp add: step_data fe)
qed

lemma sendFile_then_onload:
  assumes "connectionRef s = Some c"
  shows "sent (file_loaded (length (pendingReads s)) e (sendFile f s)) =
           sent s @ [(c, FileStartFrame (file_name f) (file_size f)),
                     (c, FileFrame (file_bytes f) (file_name f) (file_size f))]"
    and "messages (file_loaded (length (pendingReads s)) e (sendFile f s)) =
           messages s @ [own_file e f]"
    and "pendingReads (file_loaded (length (pendingReads s)) e (sendFile f s)) = pendingReads s"
  using assms
  by (simp_all add: sendFile_def file_loaded_def reader_onload_def remove_nth_def)

lemma set_enabled_twice:
  "set_enabled st k b \<circ> set_enabled st k b' = set_enabled st k b"
  by (rule ext) (simp add: set_enabled_def)

lemma map_set_enabled_id:
  "list_all (\<lambda>t. enabled t = b) (filter (\<lambda>t. owner t = st \<and> kind t = k) ts) \<Longrightarrow>
   map (set_enabled st k b) ts = ts"
  by (induction ts) (auto simp: set_enabled_def)

lemma enabled_after_set:
  "map enabled (filter (\<lambda>t. owner t = st \<and> kind t = k) (map (set_enabled st k b) ts)) =
   map (\<lambda>t. b) (filter (\<lambda>t. owner t = st \<and> kind t = k) ts)"
  by (induction ts) (simp_all add: set_enabled_def)

lemma toggleMute_twice:
  assumes "localStreamRef s = Some st"
  shows "toggleMute (toggleMute s) =
         s\<lparr>tracks := map (set_enabled st AudioTrack (\<not> isMuted s)) (tracks s)\<rparr>"
  using assms by (simp add: toggleMute_def set_enabled_twice)

lemma generate_id_length: "length (generate_id r36) = min 6 (length r36 - 2)"
  by (simp add: generate_id_def toUpperCase_def substring_def)

lemma to_upper_alnum:
  assumes "radix36_digit c"
  shows "upper_alnum (to_upper c)"
proof (cases "(97::nat) \<le> of_char c \<and> of_char c \<le> (122::nat)")
  case True
  then have "of_char c - (32::nat) < 256"
    by arith
  then have "(of_char c - (32::nat)) mod 256 = of_char c - 32"
    by (rule mod_less)
  then have "of_char (to_upper c) = (of_char c :: nat) - 32"
    using True by (simp add: to_upper_def)
  then show ?thesis
    using True unfolding upper_alnum_def by arith
next
  case False
  then show ?thesis
    using assms by (auto simp: to_upper_def upper_alnum_def radix36_digit_def)
qed

lemma substring_2_8: "substring 2 8 s = take 6 (drop 2 s)"
proof (cases "2 \<le> length s")
  case True
  then show ?thesis
    by (cases "8 \<le> length s") (simp_all add: substring_def min_def)
next
  case False
  then show ?thesis
    by (simp add: substring_def)
qed

lemma generate_id_chars:
  assumes "list_all radix36_digit (drop 2 r36)"
  shows "list_all upper_alnum (generate_id r36)"
proof -
  have "list_all radix36_digit (take 6 (drop 2 r36))"
    using assms by (auto simp: list_all_iff dest: in_set_takeD)
  then show ?thesis
    by (simp add: generate_id_def toUpperCase_def substring_2_8 list_all_iff to_upper_alnum)
qed

lemma callState_fold_sendFile: "callState (fold sendFile fs s) = callState s"
  by (induction fs arbitrary: s) (simp_all add: sendFile_def split: option.splits)

lemma callListeners_fold_sendFile: "callListeners (fold sendFile fs s) = callListeners s"
  by (induction fs arbitrary: s) (simp_all add: sendFile_def split: option.splits)

text \<open>
  The call becomes \<open>active\<close> by the \<open>stream\<close> listener of a call and by nothing else, and
  a call gets its listeners only in the continuation of a \<open>getUserMedia\<close> that resolved,
  which has stored the acquired stream in \<open>localStreamRef\<close>.
\<close>

lemma active_only_by_stream_listener:
  assumes "callState (dispatch s ev) = Active" and "callState s \<noteq> Active"
  shows "\<exists>c r e. ev = CallStream c r e \<and> call_id c \<in> set (callListeners s)"
  using assms
  by (cases ev)
    (auto simp: handler_defs callState_fold_sendFile Let_def
      split: if_splits option.splits pending.splits prod.splits frame.splits)

lemma listeners_only_after_acquisition:
  assumes "c \<in> set (callListeners (dispatch s ev))" and "c \<notin> set (callListeners s)"
  shows "\<exists>k e. ev = MediaGranted k e \<and> localStreamRef (dispatch s ev) \<noteq> None"
  using assms
  by (cases ev)
    (auto simp: handler_defs callListeners_fold_sendFile Let_def
      split: if_splits option.splits pending.splits prod.splits frame.splits)

text \<open>
  On a call that carries the listeners, a remote \<open>close\<close> or \<open>error\<close> runs the cleanup.
\<close>

lemma remote_termination_when_listening:
  assumes "call_id c \<in> set (callListeners s)"
    and "ev = CallClose c e \<or> ev = CallError c msg e"
  shows "callState (step s ev) = Idle \<and> localStreamRef (step s ev) = None \<and>
         mediaCallRef (step s ev) = None \<and> isMuted (step s ev) = False \<and>
         isCamOff (step s ev) = False \<and> localVideo (step s ev) = None \<and>
         remoteVideo (step s ev) = None \<and> remoteAudio (step s ev) = None \<and>
         length (messages (step s ev)) = Suc (length (messages s))"
  using assms
  by (auto simp: step_def render_def video_panel_def handler_defs Let_def split: option.splits)

lemma hangUp_fields:
  "callState (hangUp e s) = Idle"
  "localStreamRef (hangUp e s) = None"
  "remoteAudio (hangUp e s) = None"
  "isMuted (hangUp e s) = False"
  "isCamOff (hangUp e s) = False"
  "mediaCallRef (hangUp e s) = None"
  "tracks (hangUp e s) =
     (case localStreamRef s of None \<Rightarrow> tracks s | Some st \<Rightarrow> map (stop_track st) (tracks s))"
  by (simp_all add: hangUp_def handleCallEnded_def close_current_call_def addSystemMessage_def
      stopLocalStream_def Let_def split: option.splits)

lemma render_idle:
  assumes "callState s = Idle"
  shows "render s = s\<lparr>localVideo := None, remoteVideo := None\<rparr>"
  using assms by (simp add: render_def video_panel_def)

lemma stop_track_owner: "owner (stop_track st u) = owner u"
  by (simp add: stop_track_def)

lemma stop_track_live: "live (stop_track st u) = (live u \<and> owner u \<noteq> st)"
  by (simp add: stop_track_def)

lemma stopped_tracks:
  assumes "t \<in> set (case r of None \<Rightarrow> ts | Some st \<Rightarrow> map (stop_track st) ts)"
    and "Some (owner t) = r"
  shows "\<not> live t"
proof -
  from assms(2) have t: "t \<in> set (map (stop_track (owner t)) ts)"
    using assms(1) by (cases r) simp_all
  then obtain u where u: "u \<in> set ts" "t = stop_track (owner t) u"
    by (auto simp only: set_map)
  have "owner u = owner t"
    using u(2) stop_track_owner [of "owner t" u] by simp
  then have "\<not> live (stop_track (owner t) u)"
    by (simp add: stop_track_live)
  then show ?thesis
    using u(2) by simp
qed

lemma all_stopped:
  assumes "\<forall>t \<in> set ts. live t \<longrightarrow> Some (owner t) = r"
    and "t \<in> set (case r of None \<Rightarrow> ts | Some st \<Rightarrow> map (stop_track st) ts)"
  shows "\<not> live t"
proof (cases r)
  case None
  then show ?thesis using assms by auto
next
  case (Some st)
  then obtain u where u: "u \<in> set ts" "t = stop_track st u"
    using assms(2) by (auto simp only: option.case set_map)
  show ?thesis
  proof
    assume "live t"
    then have l: "live u" "owner u \<noteq> st"
      using u(2) by (simp_all add: stop_track_live)
    then have "Some (owner u) = r"
      using assms(1) u(1) by blast
    then show False
      using l(2) Some by simp
  qed
qed

lemma set_enabled_fixed:
  assumes "set_enabled st k b t = t" and "owner t = st" and "kind t = k"
  shows "enabled t = b"
proof -
  have "set_enabled st k b t = t\<lparr>enabled := b\<rparr>"
    using assms(2,3) by (simp add: set_enabled_def)
  then have "enabled t = enabled (t\<lparr>enabled := b\<rparr>)"
    using assms(1) by simp
  then show ?thesis by simp
qed

lemma map_set_enabled_fixed:
  "map (set_enabled st k b) ts = ts \<Longrightarrow>
   list_all (\<lambda>t. enabled t = b) (filter (\<lambda>t. owner t = st \<and> kind t = k) ts)"
proof (induction ts)
  case Nil
  then show ?case by simp
next
  case (Cons t ts)
  then have h: "set_enabled st k b t = t" and r: "map (set_enabled st k b) ts = ts"
    by simp_all
  show ?case
    using Cons.IH [OF r] set_enabled_fixed [OF h] by simp
qed

section \<open>What the handlers do on the state they are written for\<close>

text \<open>
  With a connection in \<open>connectionRef\<close>, a file goes out as a \<open>file-start\<close> frame and,
  when the read completes, a \<open>file\<close> frame with the file's bytes, and nothing else.
  Delivered in order and once each to a receiver whose connection carries the
  listeners, with any other frames \<open>others\<close> in between, they add to the receiver's log
  the system notice of the incoming file, then the entries of the other frames, then a
  completed \<open>remote\<close> file message whose payload is the sender's bytes.
\<close>

lemma file_round_trip_with_handle:
  assumes "connectionRef s = Some c" and "conn_id rc \<in> set (dataListeners r)"
  shows "sent (file_loaded (length (pendingReads s)) e (sendFile f s)) =
           sent s @ [(c, FileStartFrame (file_name f) (file_size f)),
                     (c, FileFrame (file_bytes f) (file_name f) (file_size f))] \<and>
         messages (deliver rc ((FileStartFrame (file_name f) (file_size f), e1) # others @
                               [(FileFrame (file_bytes f) (file_name f) (file_size f), e2)]) r) =
           messages r @ [system_message e1 (IncomingFile (conn_peer rc) (file_name f))] @
             concat (map (frame_entries rc) others) @
             [remote_file e2 (file_bytes f) (file_name f) (file_size f)] \<and>
         sender (remote_file e2 (file_bytes f) (file_name f) (file_size f)) = Remote \<and>
         msg_type (remote_file e2 (file_bytes f) (file_name f) (file_size f)) = File \<and>
         fileData (remote_file e2 (file_bytes f) (file_name f) (file_size f)) = Some (file_bytes f) \<and>
         sender (system_message e1 (IncomingFile (conn_peer rc) (file_name f))) = System \<and>
         msg_type (system_message e1 (IncomingFile (conn_peer rc) (file_name f))) = SystemT"
  using assms
  by (simp add: sendFile_then_onload deliver_messages frame_entries_def remote_file_def
      system_message_def)

text \<open>
  A sends \<open>a.txt\<close> to B, and a text while the file is being read: B's log, which held
  the notice of the opened channel, gains the file notice, the text and the file.
\<close>

lemma file_round_trip_example:
  "connectionRef alice = Some (conn0 id_b) \<and>
   conn_id (conn0 id_a) \<in> set (dataListeners bob) \<and>
   map snd (sent (file_loaded (length (pendingReads alice)) (env_at 1700000000200 ''0.5'')
                    (sendFile sample_file alice))) =
     [FileStartFrame [97, 46, 116, 120, 116] 3, FileFrame [104, 105, 10] [97, 46, 116, 120, 116] 3] \<and>
   map msg_type (messages (deliver (conn0 id_a)
      [(FileStartFrame (file_name sample_file) (file_size sample_file), env_at 1700000000100 ''0.1''),
       (TextFrame [111, 107], env_at 1700000000150 ''0.2''),
       (FileFrame (file_bytes sample_file) (file_name sample_file) (file_size sample_file),
        env_at 1700000000300 ''0.3'')] bob)) = [SystemT, SystemT, Text, File] \<and>
   map fileData (messages (deliver (conn0 id_a)
      [(FileStartFrame (file_name sample_file) (file_size sample_file), env_at 1700000000100 ''0.1''),
       (TextFrame [111, 107], env_at 1700000000150 ''0.2''),
       (FileFrame (file_bytes sample_file) (file_name sample_file) (file_size sample_file),
        env_at 1700000000300 ''0.3'')] bob)) = [None, None, None, Some [104, 105, 10]]"
proof -
  have h1: "connectionRef alice = Some (conn0 id_b)"
    by (simp add: example_defs handler_defs)
  have h2: "conn_id (conn0 id_a) \<in> set (dataListeners bob)"
    by (simp add: example_defs handler_defs)
  have b: "messages bob = [system_message (env_at 1700000000020 ''0.75'') (ChannelOpened id_a)]"
    by (simp add: example_defs handler_defs)
  have a: "sent alice = []"
    by (simp add: example_defs handler_defs)
  note inst = file_round_trip_with_handle [OF h1 h2, of "env_at 1700000000200 ''0.5''" sample_file
      "env_at 1700000000100 ''0.1''" "[(TextFrame [111, 107], env_at 1700000000150 ''0.2'')]"
      "env_at 1700000000300 ''0.3''"]
  have c1: "map snd (sent (file_loaded (length (pendingReads alice)) (env_at 1700000000200 ''0.5'')
                    (sendFile sample_file alice))) =
     [FileStartFrame [97, 46, 116, 120, 116] 3, FileFrame [104, 105, 10] [97, 46, 116, 120, 116] 3]"
    using inst a by (simp add: sample_file_def file_size_def)
  have c2: "messages (deliver (conn0 id_a)
      [(FileStartFrame (file_name sample_file) (file_size sample_file), env_at 1700000000100 ''0.1''),
       (TextFrame [111, 107], env_at 1700000000150 ''0.2''),
       (FileFrame (file_bytes sample_file) (file_name sample_file) (file_size sample_file),
        env_at 1700000000300 ''0.3'')] bob) =
      messages bob @ [system_message (env_at 1700000000100 ''0.1'')
                        (IncomingFile (conn_peer (conn0 id_a)) (file_name sample_file))] @
        concat (map (frame_entries (conn0 id_a)) [(TextFrame [111, 107], env_at 1700000000150 ''0.2'')]) @
        [remote_file (env_at 1700000000300 ''0.3'') (file_bytes sample_file) (file_name sample_file)
           (file_size sample_file)]"
    using inst by simp
  have c3: "map msg_type (messages (deliver (conn0 id_a)
      [(FileStartFrame (file_name sample_file) (file_size sample_file), env_at 1700000000100 ''0.1''),
       (TextFrame [111, 107], env_at 1700000000150 ''0.2''),
       (FileFrame (file_bytes sample_file) (file_name sample_file) (file_size sample_file),
        env_at 1700000000300 ''0.3'')] bob)) = [SystemT, SystemT, Text, File]"
    unfolding c2 b
    by (simp add: system_message_def remote_file_def remote_text_def frame_entries_def)
  have c4: "map fileData (messages (deliver (conn0 id_a)
      [(FileStartFrame (file_name sample_file) (file_size sample_file), env_at 1700000000100 ''0.1''),
       (TextFrame [111, 107], env_at 1700000000150 ''0.2''),
       (FileFrame (file_bytes sample_file) (file_name sample_file) (file_size sample_file),
        env_at 1700000000300 ''0.3'')] bob)) = [None, None, None, Some [104, 105, 10]]"
    unfolding c2 b
    by (simp add: system_message_def remote_file_def remote_text_def frame_entries_def
        sample_file_def)
  show ?thesis
    by (rule conjI [OF h1 conjI [OF h2 conjI [OF c1 conjI [OF c3 c4]]]])
qed

text \<open>
  With a connection in \<open>connectionRef\<close> and a body that is not blank, \<open>sendMessage\<close>
  appends exactly one entry to the sender's log, authored \<open>me\<close>, with the body as typed,
  and hands exactly one text frame with that body to the connection; delivered, that
  frame appends exactly one entry, authored \<open>remote\<close>, with the same body.
\<close>

lemma text_round_trip_with_handle:
  assumes "connectionRef s = Some c" and "trim (inputText s) \<noteq> []"
    and "conn_id rc \<in> set (dataListeners r)"
  shows "messages (sendMessage e s) = messages s @ [own_text e (inputText s)] \<and>
         sender (own_text e (inputText s)) = Me \<and>
         msg_type (own_text e (inputText s)) = Text \<and>
         content (own_text e (inputText s)) = Body (inputText s) \<and>
         sent (sendMessage e s) = sent s @ [(c, TextFrame (inputText s))] \<and>
         messages (deliver rc [(TextFrame (inputText s), e')] r) =
           messages r @ [remote_text e' (inputText s)] \<and>
         sender (remote_text e' (inputText s)) = Remote \<and>
         msg_type (remote_text e' (inputText s)) = Text \<and>
         content (remote_text e' (inputText s)) = Body (inputText s)"
  using assms
  by (simp add: sendMessage_def own_text_def remote_text_def deliver_messages frame_entries_def)

text \<open>A, connected to B, has typed \<open>hi\<close> and sends it.\<close>

lemma text_round_trip_example:
  "connectionRef alice = Some (conn0 id_b) \<and>
   trim (inputText alice) \<noteq> [] \<and>
   conn_id (conn0 id_a) \<in> set (dataListeners bob) \<and>
   map content (messages (sendMessage (env_at 1700000000100 ''0.1'') alice)) =
     [ChannelOpened id_b, Body [104, 105]] \<and>
   map snd (sent (sendMessage (env_at 1700000000100 ''0.1'') alice)) = [TextFrame [104, 105]] \<and>
   map content (messages (deliver (conn0 id_a)
      [(TextFrame (inputText alice), env_at 1700000000150 ''0.2'')] bob)) =
     [ChannelOpened id_a, Body [104, 105]]"
proof -
  have h1: "connectionRef alice = Some (conn0 id_b)"
    by (simp add: example_defs handler_defs)
  have h2: "trim (inputText alice) \<noteq> []"
    by (simp add: example_defs handler_defs)
  have h3: "conn_id (conn0 id_a) \<in> set (dataListeners bob)"
    by (simp add: example_defs handler_defs)
  have a: "messages alice = [system_message (env_at 1700000000000 ''0.25'') (ChannelOpened id_b)]"
    "sent alice = []" "inputText alice = [104, 105]"
    by (simp_all add: example_defs handler_defs)
  have b: "messages bob = [system_message (env_at 1700000000020 ''0.75'') (ChannelOpened id_a)]"
    by (simp add: example_defs handler_defs)
  note inst = text_round_trip_with_handle [OF h1 h2 h3, of "env_at 1700000000100 ''0.1''"
      "env_at 1700000000150 ''0.2''"]
  have c1: "map content (messages (sendMessage (env_at 1700000000100 ''0.1'') alice)) =
     [ChannelOpened id_b, Body [104, 105]]"
    using inst by (simp add: a system_message_def)
  have c2: "map snd (sent (sendMessage (env_at 1700000000100 ''0.1'') alice)) = [TextFrame [104, 105]]"
    using inst by (simp add: a)
  have c3: "map content (messages (deliver (conn0 id_a)
      [(TextFrame (inputText alice), env_at 1700000000150 ''0.2'')] bob)) =
     [ChannelOpened id_a, Body [104, 105]]"
    using inst by (simp add: a b system_message_def)
  show ?thesis
    by (rule conjI [OF h1 conjI [OF h2 conjI [OF h3 conjI [OF c1 conjI [OF c2 c3]]]]])
qed

text \<open>
  A click on hang-up while the call is \<open>calling\<close> or \<open>active\<close> leaves the call
  \<open>idle\<close>, every track of the stream that \<open>localStreamRef\<close> held stopped and
  \<open>localStreamRef\<close> empty, no stream attached to the three media elements, and the mute
  and camera-off flags false. No local track at all is live afterwards if every track
  that was live before belonged to the stream that \<open>localStreamRef\<close> held.
\<close>

lemma hangUp_releases_held_stream:
  assumes "callState s = Calling \<or> callState s = Active"
  shows "step s (ClickHangUp e) = render (hangUp e s) \<and>
         callState (step s (ClickHangUp e)) = Idle \<and>
         localStreamRef (step s (ClickHangUp e)) = None \<and>
         (\<forall>t \<in> set (tracks (step s (ClickHangUp e))). Some (owner t) = localStreamRef s \<longrightarrow> \<not> live t) \<and>
         localVideo (step s (ClickHangUp e)) = None \<and>
         remoteVideo (step s (ClickHangUp e)) = None \<and>
         remoteAudio (step s (ClickHangUp e)) = None \<and>
         isMuted (step s (ClickHangUp e)) = False \<and>
         isCamOff (step s (ClickHangUp e)) = False \<and>
         ((\<forall>t \<in> set (tracks s). live t \<longrightarrow> Some (owner t) = localStreamRef s) \<longrightarrow>
          (\<forall>t \<in> set (tracks (step s (ClickHangUp e))). \<not> live t))"
proof -
  have eq: "step s (ClickHangUp e) = render (hangUp e s)"
    using assms by (auto simp: step_def)
  have r: "render (hangUp e s) = (hangUp e s)\<lparr>localVideo := None, remoteVideo := None\<rparr>"
    by (rule render_idle) (rule hangUp_fields)
  have tr: "tracks (step s (ClickHangUp e)) =
      (case localStreamRef s of None \<Rightarrow> tracks s | Some st \<Rightarrow> map (stop_track st) (tracks s))"
    by (simp add: eq r hangUp_fields)
  have a: "\<forall>t \<in> set (tracks (step s (ClickHangUp e))). Some (owner t) = localStreamRef s \<longrightarrow> \<not> live t"
    unfolding tr using stopped_tracks by blast
  have b: "(\<forall>t \<in> set (tracks s). live t \<longrightarrow> Some (owner t) = localStreamRef s) \<longrightarrow>
          (\<forall>t \<in> set (tracks (step s (ClickHangUp e))). \<not> live t)"
    unfolding tr using all_stopped by blast
  have c: "callState (step s (ClickHangUp e)) = Idle"
    "localStreamRef (step s (ClickHangUp e)) = None"
    "localVideo (step s (ClickHangUp e)) = None"
    "remoteVideo (step s (ClickHangUp e)) = None"
    "remoteAudio (step s (ClickHangUp e)) = None"
    "isMuted (step s (ClickHangUp e)) = False"
    "isCamOff (step s (ClickHangUp e)) = False"
    by (simp_all add: eq r hangUp_fields)
  show ?thesis
    by (intro conjI eq a b c)
qed

text \<open>A hangs up the audio call it had answered: its microphone track is stopped.\<close>

lemma hangUp_example:
  "callState in_call = Active \<and>
   map live (tracks in_call) = [True] \<and>
   callState (step in_call (ClickHangUp (env_at 1700000009000 ''0.125''))) = Idle \<and>
   localStreamRef (step in_call (ClickHangUp (env_at 1700000009000 ''0.125''))) = None \<and>
   remoteAudio (step in_call (ClickHangUp (env_at 1700000009000 ''0.125''))) = None \<and>
   filter live (tracks (step in_call (ClickHangUp (env_at 1700000009000 ''0.125'')))) = []"
proof -
  have a: "callState in_call = Active"
    by (simp add: example_defs handler_defs)
  then have h: "callState in_call = Calling \<or> callState in_call = Active"
    by simp
  have t: "tracks in_call = [\<lparr>owner = 1, kind = AudioTrack, enabled = True, live = True\<rparr>]"
    "localStreamRef in_call = Some 1"
    by (simp_all add: example_defs handler_defs)
  have l: "map live (tracks in_call) = [True]"
    by (simp add: t)
  note inst = hangUp_releases_held_stream [OF h, of "env_at 1700000009000 ''0.125''"]
  have c1: "callState (step in_call (ClickHangUp (env_at 1700000009000 ''0.125''))) = Idle"
    by (rule inst [THEN conjunct2, THEN conjunct1])
  have c2: "localStreamRef (step in_call (ClickHangUp (env_at 1700000009000 ''0.125''))) = None"
    by (rule inst [THEN conjunct2, THEN conjunct2, THEN conjunct1])
  have c3: "remoteAudio (step in_call (ClickHangUp (env_at 1700000009000 ''0.125''))) = None"
    by (rule inst [THEN conjunct2, THEN conjunct2, THEN conjunct2, THEN conjunct2,
          THEN conjunct2, THEN conjunct2, THEN conjunct1])
  have p: "\<forall>t \<in> set (tracks in_call). live t \<longrightarrow> Some (owner t) = localStreamRef in_call"
    by (simp add: t)
  have "\<forall>t \<in> set (tracks (step in_call (ClickHangUp (env_at 1700000009000 ''0.125'')))). \<not> live t"
    by (rule inst [THEN conjunct2, THEN conjunct2, THEN conjunct2, THEN conjunct2,
          THEN conjunct2, THEN conjunct2, THEN conjunct2, THEN conjunct2, THEN conjunct2,
          THEN mp, OF p])
  then have c4: "filter live (tracks (step in_call (ClickHangUp (env_at 1700000009000 ''0.125'')))) = []"
    by (simp only: filter_empty_conv)
  show ?thesis
    by (rule conjI [OF a conjI [OF l conjI [OF c1 conjI [OF c2 conjI [OF c3 c4]]]]])
qed

text \<open>
  With a local stream held, two \<open>toggleMute\<close> in a row bring the mute flag back to its
  value and leave the \<open>enabled\<close> flag of every audio track of the local stream at the
  negation of that value: \<open>toggleMute\<close> assigns the flag to the tracks. The two toggles
  are the identity on the state exactly when, before them, every local audio track was
  enabled if and only if the mute flag was off.
\<close>

lemma toggleMute_twice_characterised:
  assumes "callState s = Active" and "localStreamRef s = Some st"
  shows "dispatch (dispatch s ClickToggleMute) ClickToggleMute = toggleMute (toggleMute s) \<and>
         isMuted (toggleMute (toggleMute s)) = isMuted s \<and>
         map enabled (getAudioTracks st (tracks (toggleMute (toggleMute s)))) =
           map (\<lambda>t. \<not> isMuted s) (getAudioTracks st (tracks s)) \<and>
         (list_all (\<lambda>t. enabled t = (\<not> isMuted s)) (getAudioTracks st (tracks s)) \<longrightarrow>
            toggleMute (toggleMute s) = s) \<and>
         (toggleMute (toggleMute s) = s \<longrightarrow>
            list_all (\<lambda>t. enabled t = (\<not> isMuted s)) (getAudioTracks st (tracks s)))"
proof -
  have tw: "toggleMute (toggleMute s) =
      s\<lparr>tracks := map (set_enabled st AudioTrack (\<not> isMuted s)) (tracks s)\<rparr>"
    using assms(2) by (rule toggleMute_twice)
  have c: "callState (toggleMute s) = Active"
    using assms by (simp add: toggleMute_def)
  have d: "dispatch (dispatch s ClickToggleMute) ClickToggleMute = toggleMute (toggleMute s)"
    using assms(1) c by simp
  have m: "isMuted (toggleMute (toggleMute s)) = isMuted s"
    by (simp add: tw)
  have fl: "map enabled (getAudioTracks st (tracks (toggleMute (toggleMute s)))) =
           map (\<lambda>t. \<not> isMuted s) (getAudioTracks st (tracks s))"
    by (simp add: tw getAudioTracks_def enabled_after_set)
  have i1: "list_all (\<lambda>t. enabled t = (\<not> isMuted s)) (getAudioTracks st (tracks s)) \<longrightarrow>
            toggleMute (toggleMute s) = s"
    by (simp add: tw getAudioTracks_def map_set_enabled_id)
  have i2: "toggleMute (toggleMute s) = s \<longrightarrow>
            list_all (\<lambda>t. enabled t = (\<not> isMuted s)) (getAudioTracks st (tracks s))"
  proof
    assume "toggleMute (toggleMute s) = s"
    then have "tracks (s\<lparr>tracks := map (set_enabled st AudioTrack (\<not> isMuted s)) (tracks s)\<rparr>) = tracks s"
      using tw by simp
    then have "map (set_enabled st AudioTrack (\<not> isMuted s)) (tracks s) = tracks s"
      by simp
    then show "list_all (\<lambda>t. enabled t = (\<not> isMuted s)) (getAudioTracks st (tracks s))"
      unfolding getAudioTracks_def by (rule map_set_enabled_fixed)
  qed
  show ?thesis
    by (intro conjI d m fl i1 i2)
qed

text \<open>A in the audio call it answered, not muted: two toggles give the same state back.\<close>

lemma toggleMute_twice_example:
  "callState in_call = Active \<and> localStreamRef in_call = Some 1 \<and> isMuted in_call = False \<and>
   map enabled (getAudioTracks 1 (tracks in_call)) = [True] \<and>
   dispatch (dispatch in_call ClickToggleMute) ClickToggleMute = toggleMute (toggleMute in_call) \<and>
   toggleMute (toggleMute in_call) = in_call"
proof -
  have a: "callState in_call = Active"
    by (simp add: example_defs handler_defs)
  have t: "tracks in_call = [\<lparr>owner = 1, kind = AudioTrack, enabled = True, live = True\<rparr>]"
    by (simp add: example_defs handler_defs)
  have l: "localStreamRef in_call = Some 1"
    by (simp add: example_defs handler_defs)
  have m: "isMuted in_call = False"
    by (simp add: example_defs handler_defs)
  have f: "map enabled (getAudioTracks 1 (tracks in_call)) = [True]"
    by (simp add: t getAudioTracks_def)
  have p: "list_all (\<lambda>t. enabled t = (\<not> isMuted in_call)) (getAudioTracks 1 (tracks in_call))"
    by (simp add: t m getAudioTracks_def)
  note inst = toggleMute_twice_characterised [OF a l]
  have c1: "dispatch (dispatch in_call ClickToggleMute) ClickToggleMute = toggleMute (toggleMute in_call)"
    by (rule inst [THEN conjunct1])
  have c2: "toggleMute (toggleMute in_call) = in_call"
    by (rule inst [THEN conjunct2, THEN conjunct2, THEN conjunct2, THEN conjunct1, THEN mp, OF p])
  show ?thesis
    by (rule conjI [OF a conjI [OF l conjI [OF m conjI [OF f conjI [OF c1 c2]]]]])
qed

section \<open>The claims\<close>

subsection \<open>C1: file round trip\<close>

text \<open>
  C1. The claim fails on the code in a state the component reaches by itself. B
  connects to A and the channel opens; C connects, and its connection takes B's place
  in \<open>connectionRef\<close>; B's connection closes, and its \<open>close\<close> listener empties
  \<open>connectionRef\<close>, which held C's connection; C's channel opens. A is now \<open>connected\<close>
  with \<open>connectionRef\<close> empty. A file dropped on the chat area passes the status test of
  \<open>handleDrop\<close>, and \<open>sendFile\<close> returns at its guard, as it does for a file chosen through
  the file input: no frame is sent, no read is started, so the receiver's log gains
  nothing. Lemma \<open>file_round_trip_with_handle\<close> above is what holds while
  \<open>connectionRef\<close> holds a connection.
\<close>

theorem C1_connected_file_not_sent:
  "status overtaken = Connected \<and> connectionRef overtaken = None \<and>
   dataListeners overtaken = [0, 1] \<and> sent overtaken = [] \<and> pendingReads overtaken = [] \<and>
   step overtaken (DropFiles [sample_file]) = overtaken \<and>
   step overtaken (ChooseFile sample_file) = overtaken"
  by (simp add: overtaken_def conn1_def example_defs handler_defs)

subsection \<open>C2: connecting again\<close>

text \<open>
  C2, as amended. While the connection is \<open>connecting\<close> or \<open>connected\<close> the connect
  button is disabled, so a click on it leaves the whole state as it is. \<open>connectToPeer\<close>
  itself does not look at the status: it returns without effect only when there is no
  peer or the target id is blank, and otherwise sets the status to \<open>connecting\<close> and
  puts a new connection in place of the current one. It never touches the message log.
  Both variants of the component do the same.
\<close>

theorem C2_connect_guarded_by_button_only:
  "(status s = Connecting \<or> status s = Connected \<longrightarrow> dispatch s ClickConnect = s) \<and>
   messages (connectToPeer s) = messages s \<and>
   (peerRef s = None \<or> trim (targetId s) = [] \<longrightarrow> connectToPeer s = s) \<and>
   (peerRef s \<noteq> None \<and> trim (targetId s) \<noteq> [] \<longrightarrow>
      status (connectToPeer s) = Connecting \<and>
      connectionRef (connectToPeer s) = Some \<lparr>conn_id = nextObject s, conn_peer = trim (targetId s)\<rparr> \<and>
      connection (connectToPeer s) = connectionRef (connectToPeer s)) \<and>
   (b_status b = Connecting \<or> b_status b = Connected \<longrightarrow> base_step b BClickConnect = b) \<and>
   b_messages (base_connectToPeer b) = b_messages b \<and>
   (b_peerRef b = None \<or> trim (b_targetId b) = [] \<longrightarrow> base_connectToPeer b = b) \<and>
   (b_peerRef b \<noteq> None \<and> trim (b_targetId b) \<noteq> [] \<longrightarrow>
      b_status (base_connectToPeer b) = Connecting \<and>
      b_connection (base_connectToPeer b) =
        Some \<lparr>conn_id = b_nextObject b, conn_peer = trim (b_targetId b)\<rparr>)"
  by (simp add: connect_disabled_def connectToPeer_def handleDataConnection_def
      base_connect_disabled_def base_connectToPeer_def handleConnection_def Let_def)

text \<open>
  A, connected to B: a click on the disabled button changes nothing; \<open>connectToPeer\<close>,
  called all the same, leaves the log alone and starts connecting again.
\<close>

theorem C2_witness:
  "status alice = Connected \<and> peerRef alice \<noteq> None \<and> trim (targetId alice) \<noteq> [] \<and>
   b_status base_alice = Connected \<and>
   dispatch alice ClickConnect = alice \<and>
   messages (connectToPeer alice) = messages alice \<and>
   status (connectToPeer alice) = Connecting \<and>
   base_step base_alice BClickConnect = base_alice"
proof -
  have h1: "status alice = Connected"
    by (simp add: example_defs handler_defs)
  have h2: "peerRef alice \<noteq> None"
    by (simp add: example_defs handler_defs)
  have h3: "trim (targetId alice) \<noteq> []"
    by (simp add: example_defs handler_defs)
  have h4: "b_status base_alice = Connected"
    by (simp add: example_defs base_defs)
  note inst = C2_connect_guarded_by_button_only [of alice base_alice]
  have c1: "dispatch alice ClickConnect = alice"
    using inst [THEN conjunct1] h1 by simp
  have c2: "messages (connectToPeer alice) = messages alice"
    by (rule inst [THEN conjunct2, THEN conjunct1])
  have c3: "status (connectToPeer alice) = Connecting"
    using inst [THEN conjunct2, THEN conjunct2, THEN conjunct2, THEN conjunct1] h2 h3 by simp
  have c4: "base_step base_alice BClickConnect = base_alice"
    using inst [THEN conjunct2, THEN conjunct2, THEN conjunct2, THEN conjunct2, THEN conjunct1] h4
    by simp
  show ?thesis
    by (rule conjI [OF h1 conjI [OF h2 conjI [OF h3 conjI [OF h4
          conjI [OF c1 conjI [OF c2 conjI [OF c3 c4]]]]]]])
qed

text \<open>
  The claim as stated fails. A is connected to B, and \<open>connectToPeer\<close>, called again,
  moves the status back to \<open>connecting\<close> and replaces the connection; while A is still
  \<open>connecting\<close> it replaces the connection as well.
\<close>

theorem C2_counterexample:
  "(let s = run (mount r36_a)
       [ChangeTargetId id_b, ClickConnect, ConnOpen (conn0 id_b) (env_at 1700000000000 ''0.25'')]
    in status s = Connected \<and> connectionRef s = Some (conn0 id_b) \<and>
       status (connectToPeer s) = Connecting \<and>
       connectionRef (connectToPeer s) = Some \<lparr>conn_id = 1, conn_peer = id_b\<rparr>) \<and>
   (let s = run (mount r36_a) [ChangeTargetId id_b, ClickConnect]
    in status s = Connecting \<and> connectionRef s = Some (conn0 id_b) \<and>
       connectionRef (connectToPeer s) = Some \<lparr>conn_id = 1, conn_peer = id_b\<rparr>)"
  by (simp add: example_defs handler_defs)

subsection \<open>C3: the remote ends the call\<close>

text \<open>
  C3. The claim fails on the code in the state it singles out. B calls A: the call is
  \<open>incoming\<close> and carries no listener of the component, since \<open>setupMediaCall\<close>, which
  registers them, runs only in the continuations of \<open>startCall\<close> and \<open>answerCall\<close>. A
  \<open>close\<close> or an \<open>error\<close> of that call (B cancels) runs no code: the state after it is
  the state before, the call stays \<open>incoming\<close>, nothing is cleaned up, no notice is
  added. Lemma \<open>remote_termination_when_listening\<close> above is what holds once the
  listeners are there.
\<close>

theorem C3_incoming_keeps_ringing:
  "(let s = run (mount r36_a) [PeerCall id_b (Some Audio) (env_at 1700000000000 ''0.25'')]
    in callState s = Incoming \<and> mediaCallRef s = Some (call0 id_b Audio) \<and>
       callListeners s = [] \<and>
       step s (CallClose (call0 id_b Audio) (env_at 1700000009000 ''0.5'')) = s \<and>
       step s (CallError (call0 id_b Audio) [120] (env_at 1700000009000 ''0.5'')) = s)"
  by (simp add: example_defs handler_defs)

subsection \<open>C4: becoming active\<close>

text \<open>
  C4. The claim fails on the code for an answered video call. B calls A with video; A
  answers and the camera and microphone are granted; the \<open>stream\<close> event of the call
  fires. The call was \<open>incoming\<close> until then, so the video panel was not rendered and
  \<open>remoteVideoRef.current\<close> is null: \<open>attachStream\<close> returns without attaching, and the
  call becomes \<open>active\<close> with the remote stream attached to no element (nor the local
  stream to the local video element); only a further \<open>stream\<close> event, should the
  library send one, would attach it. Lemmas \<open>active_only_by_stream_listener\<close> and
  \<open>listeners_only_after_acquisition\<close> above are the part of the claim that holds.
\<close>

theorem C4_active_without_remote_stream:
  "(let s = run (mount r36_a)
       [PeerCall id_b (Some Video) (env_at 1700000000000 ''0.25''),
        ClickAnswer,
        MediaGranted 0 (env_at 1700000003000 ''0.5'')];
        s' = step s (CallStream (call0 id_b Video) 7 (env_at 1700000004000 ''0.75''))
    in callState s = Incoming \<and> localStreamRef s = Some 1 \<and> callListeners s = [0] \<and>
       callState s' = Active \<and> callMode s' = Video \<and>
       remoteVideo s' = None \<and> remoteAudio s' = None \<and> localVideo s' = None)"
  by (simp add: example_defs handler_defs)

subsection \<open>C5: hanging up\<close>

text \<open>
  C5. The claim fails on the code. A, connected to B, starts an audio call, cancels it
  while the permission prompt is open, and starts it again; both \<open>getUserMedia\<close>
  resolve, and the second stream takes the place of the first in \<open>localStreamRef\<close>. A
  hangs up while \<open>calling\<close>: the call is idle, \<open>localStreamRef\<close> is empty, and the
  microphone track of the first stream is still live. Likewise after a single start:
  hang-up while the prompt is open leaves the call idle with no track, and the grant
  that comes later stores a live stream while the call stays idle. Lemma
  \<open>hangUp_releases_held_stream\<close> above is what \<open>hangUp\<close> does for the stream that
  \<open>localStreamRef\<close> holds.
\<close>

theorem C5_displaced_stream_stays_live:
  "(let s = run (mount r36_a)
       [ChangeTargetId id_b, ClickConnect, ConnOpen (conn0 id_b) (env_at 1700000000000 ''0.25''),
        ClickStartCall Audio,
        ClickHangUp (env_at 1700000001000 ''0.5''),
        ClickStartCall Audio,
        MediaGranted 0 (env_at 1700000003000 ''0.75''),
        MediaGranted 0 (env_at 1700000003001 ''0.125'')];
        s' = step s (ClickHangUp (env_at 1700000009000 ''0.375''))
    in callState s = Calling \<and> localStreamRef s = Some 3 \<and>
       map live (tracks s) = [True, True] \<and>
       callState s' = Idle \<and> localStreamRef s' = None \<and>
       filter live (tracks s') = [\<lparr>owner = 1, kind = AudioTrack, enabled = True, live = True\<rparr>]) \<and>
   (let s = run (mount r36_a)
       [ChangeTargetId id_b, ClickConnect, ConnOpen (conn0 id_b) (env_at 1700000000000 ''0.25''),
        ClickStartCall Audio];
        s' = step s (ClickHangUp (env_at 1700000001000 ''0.5''));
        s'' = step s' (MediaGranted 0 (env_at 1700000003000 ''0.75''))
    in callState s = Calling \<and> callState s' = Idle \<and> tracks s' = [] \<and>
       callState s'' = Idle \<and> localStreamRef s'' = Some 1 \<and>
       filter live (tracks s'') = [\<lparr>owner = 1, kind = AudioTrack, enabled = True, live = True\<rparr>])"
  by (simp add: example_defs handler_defs)

subsection \<open>C6: text round trip\<close>

text \<open>
  C6. The claim fails on the code in a state the component reaches by itself. B
  connects to A and the channel opens; C connects; B's connection closes, and its
  \<open>close\<close> listener empties \<open>connectionRef\<close>, which held C's connection; C's channel
  opens. A is now \<open>connected\<close> with \<open>connectionRef\<close> empty. The text area is enabled, A
  types \<open>hi\<close> and submits: \<open>sendMessage\<close> returns at its guard, the log gains no entry
  (it holds the three system notices of the channel events), no frame is sent, and the
  typed text stays in the input. Lemma \<open>text_round_trip_with_handle\<close> above is what
  holds while \<open>connectionRef\<close> holds a connection.
\<close>

theorem C6_connected_text_not_sent:
  "(let s = step overtaken (ChangeInputText [104, 105])
    in status s = Connected \<and> connectionRef s = None \<and> inputText s = [104, 105] \<and>
       trim (inputText s) = [104, 105] \<and> sent s = [] \<and>
       map sender (messages s) = [System, System, System] \<and>
       step s (SubmitMessage (env_at 1700000030000 ''0.125'')) = s)"
  by (simp add: overtaken_def conn1_def example_defs handler_defs)

subsection \<open>C7: the session identity\<close>

text \<open>
  C7. The claim fails on the code for a random number whose radix-36 rendering has
  fewer than six digits after the point. One half is written \<open>0.i\<close> (the digit \<open>i\<close>
  is 18, and 18/36 is 1/2), so the identity drawn from it is the single character \<open>I\<close>,
  and the \<open>Peer\<close> is created with that id; zero is written \<open>0\<close> and gives the empty
  string. By \<open>generate_id_length\<close> and \<open>generate_id_chars\<close> above the identity is
  upper-case alphanumeric and at most six characters long in every case, and has six
  characters exactly when the rendering has at least six digits after the point.
\<close>

theorem C7_short_identity:
  "radix36_fraction ''i'' = 1 / 2 \<and> generate_id ''0.i'' = ''I'' \<and>
   length (generate_id ''0.i'') = 1 \<and> peerRef (mount ''0.i'') = Some ''I'' \<and>
   generate_id ''0'' = []"
proof -
  have a: "radix36_fraction ''i'' = 1 / 2"
    by (simp add: digit36_def)
  have b: "generate_id ''0.i'' = ''I''"
    by code_simp
  have c: "length (generate_id ''0.i'') = 1"
    by (simp add: generate_id_length)
  have d: "peerRef (mount ''0.i'') = Some ''I''"
    by (simp add: mount_def b)
  have e: "generate_id ''0'' = []"
    by (simp add: generate_id_def toUpperCase_def substring_def)
  show ?thesis
    by (intro conjI a b c d e)
qed

subsection \<open>C8: message ids\<close>

text \<open>
  C8. The claim fails on the code. In the base variant the id of a text or system entry
  is the clock reading alone: a \<open>file-start\<close> frame and a text frame received within
  the same millisecond give two log entries with the same id. In the call variant the
  entries carry the rendering of a random number after the clock reading, except those
  of \<open>peer.on('error')\<close>: two peer errors within the same millisecond give two entries
  with the same id.
\<close>

theorem C8_duplicate_ids:
  "(let log = b_messages (base_run (base_mount r36_a)
        [BPeerConnection id_b,
         BConnOpen (conn0 id_b) (env_at 1700000000000 ''0.8h''),
         BConnData (conn0 id_b) (FileStartFrame [97, 46, 116, 120, 116] 3) (env_at 1700000005000 ''0.3k''),
         BConnData (conn0 id_b) (TextFrame [111, 107]) (env_at 1700000005000 ''0.9z'')])
    in map sender log = [System, System, Remote] \<and>
       msg_id (log ! 1) = msg_id (log ! 2) \<and> \<not> distinct (map msg_id log)) \<and>
   (let log = messages (run (mount r36_a)
        [PeerError None (env_at 1700000005000 ''0.31''),
         PeerError (Some [120]) (env_at 1700000005000 ''0.77'')])
    in map sender log = [System, System] \<and>
       msg_id (log ! 0) = msg_id (log ! 1) \<and> \<not> distinct (map msg_id log))"
  by (simp add: example_defs handler_defs base_defs)

subsection \<open>C9: muting twice\<close>

text \<open>
  C9. The claim fails on the code. A is in an active call with B and has muted; C calls,
  A answers: the new stream is stored in \<open>localStreamRef\<close> with its microphone track
  enabled, and the mute flag, which only \<open>handleCallEnded\<close> resets, is still on. The call
  with C becomes active. The first click on the mute button assigns the flag to the
  track, which stays enabled, and turns the flag off; the second disables the track and
  turns the flag on: after the two toggles the mute flag is as before and the
  microphone track, enabled before, is disabled. Lemma
  \<open>toggleMute_twice_characterised\<close> above says when the two toggles are the identity.
\<close>

theorem C9_stale_mute_flag:
  "(let s = run (mount r36_a)
       [PeerCall id_b (Some Audio) (env_at 1700000000000 ''0.25''),
        ClickAnswer,
        MediaGranted 0 (env_at 1700000003000 ''0.5''),
        CallStream (call0 id_b Audio) 7 (env_at 1700000004000 ''0.75''),
        ClickToggleMute,
        PeerCall id_c (Some Audio) (env_at 1700000010000 ''0.25''),
        ClickAnswer,
        MediaGranted 0 (env_at 1700000013000 ''0.5''),
        CallStream \<lparr>call_id = 2, call_peer = id_c, metadata_mode = Some Audio\<rparr> 8
          (env_at 1700000014000 ''0.75'')];
        s' = step (step s ClickToggleMute) ClickToggleMute
    in callState s = Active \<and> localStreamRef s = Some 3 \<and> isMuted s \<and>
       callListeners s = [0, 2] \<and>
       map enabled (getAudioTracks 3 (tracks s)) = [True] \<and>
       map enabled (getAudioTracks 3 (tracks (step s ClickToggleMute))) = [True] \<and>
       isMuted (step s ClickToggleMute) = False \<and>
       map enabled (getAudioTracks 3 (tracks s')) = [False] \<and>
       isMuted s')"
  by (simp add: example_defs handler_defs getAudioTracks_def)

subsection \<open>C10: the toggles without a local stream\<close>

text \<open>
  C10. While \<open>localStreamRef\<close> is empty, \<open>toggleMute\<close> and \<open>toggleCamera\<close> return at
  their guard: the state after them, with the mute flag, the camera-off flag and
  everything else, is the state before. They have no failing branch. The same holds of
  a click on their buttons.
\<close>

theorem C10_toggle_without_stream:
  assumes "localStreamRef s = None"
  shows "toggleMute s = s \<and> toggleCamera s = s \<and>
         dispatch s ClickToggleMute = s \<and> dispatch s ClickToggleCamera = s"
  using assms by (simp add: toggleMute_def toggleCamera_def)

text \<open>A, connected and in no call, has no local stream.\<close>

theorem C10_witness:
  "localStreamRef alice = None \<and> callState alice = Idle \<and>
   toggleMute alice = alice \<and> toggleCamera alice = alice \<and>
   dispatch alice ClickToggleMute = alice \<and> dispatch alice ClickToggleCamera = alice"
proof -
  have h: "localStreamRef alice = None"
    by (simp add: example_defs handler_defs)
  have i: "callState alice = Idle"
    by (simp add: example_defs handler_defs)
  show ?thesis
    by (rule conjI [OF h conjI [OF i C10_toggle_without_stream [OF h]]])
qed

end
